theory Spec2Isabelle
  imports Complex_Main "HOL-Library.Sublist"
begin

section \<open>Binary64 arithmetic\<close>

text \<open>
  Python's \<open>float\<close> and the float64 cells of pandas are IEEE 754 binary64 numbers: each
  arithmetic operation returns the exact result rounded to 53 significant bits, to
  nearest, ties to the even significand.  \<open>round53\<close> is that rounding.  A finite float
  is a real number here, and the result of an operation is the rounding of the exact
  result.  The exponent range is taken unbounded: overflow beyond \<open>1.7e308\<close> and
  gradual underflow below \<open>2.3e-308\<close>, far from any price or ratio, are not modelled,
  nor is the sign of zero.
\<close>

definition rne :: "real \<Rightarrow> int" where
  "rne y = (let f = \<lfloor>y\<rfloor>; r = y - of_int f in
            if r < 1 / 2 then f else if 1 / 2 < r then f + 1
            else if even f then f else f + 1)"

definition binade :: "real \<Rightarrow> int" where
  "binade x = \<lfloor>log 2 \<bar>x\<bar>\<rfloor>"

definition round53 :: "real \<Rightarrow> real" where
  "round53 x = (if x = 0 then 0
     else of_int (rne (x / 2 powi (binade x - 52))) * 2 powi (binade x - 52))"

section \<open>Cells of a float64 column\<close>

text \<open>
  A pandas float64 cell is a finite number, an infinity or not-a-number.  The operations
  round their finite results and follow IEEE 754 on the special values, so that a missing
  observation (\<open>NaN\<close>) propagates through arithmetic and makes every comparison false,
  and a division by zero gives an infinity or \<open>NaN\<close> as numpy does.
\<close>

datatype fval = Fin real | PInf | NInf | NaN

datatype py_error = KeyError | ValueError | ZeroDivisionError | IndexError | HostError

fun fneg :: "fval \<Rightarrow> fval" where
  "fneg (Fin a) = Fin (- a)"
| "fneg PInf = NInf"
| "fneg NInf = PInf"
| "fneg NaN = NaN"

fun fadd :: "fval \<Rightarrow> fval \<Rightarrow> fval" where
  "fadd (Fin a) (Fin b) = Fin (round53 (a + b))"
| "fadd NaN y = NaN"
| "fadd x NaN = NaN"
| "fadd PInf NInf = NaN"
| "fadd NInf PInf = NaN"
| "fadd PInf y = PInf"
| "fadd NInf y = NInf"
| "fadd (Fin a) y = y"

definition fsub :: "fval \<Rightarrow> fval \<Rightarrow> fval" where
  "fsub x y = fadd x (fneg y)"

definition fsign :: "real \<Rightarrow> fval" where
  "fsign a = (if 0 < a then PInf else if a < 0 then NInf else NaN)"

fun fmul :: "fval \<Rightarrow> fval \<Rightarrow> fval" where
  "fmul (Fin a) (Fin b) = Fin (round53 (a * b))"
| "fmul NaN y = NaN"
| "fmul x NaN = NaN"
| "fmul (Fin a) PInf = fsign a"
| "fmul (Fin a) NInf = fsign (- a)"
| "fmul PInf (Fin b) = fsign b"
| "fmul NInf (Fin b) = fsign (- b)"
| "fmul PInf PInf = PInf"
| "fmul NInf NInf = PInf"
| "fmul PInf NInf = NInf"
| "fmul NInf PInf = NInf"

fun fdiv :: "fval \<Rightarrow> fval \<Rightarrow> fval" where
  "fdiv (Fin a) (Fin b) = (if b = 0 then fsign a else Fin (round53 (a / b)))"
| "fdiv NaN y = NaN"
| "fdiv x NaN = NaN"
| "fdiv (Fin a) y = Fin 0"
| "fdiv PInf (Fin b) = (if b < 0 then NInf else PInf)"
| "fdiv NInf (Fin b) = (if b < 0 then PInf else NInf)"
| "fdiv x y = NaN"

fun flt :: "fval \<Rightarrow> fval \<Rightarrow> bool" where
  "flt (Fin a) (Fin b) = (a < b)"
| "flt NaN y = False"
| "flt x NaN = False"
| "flt x NInf = False"
| "flt PInf y = False"
| "flt x y = True"

definition fgt :: "fval \<Rightarrow> fval \<Rightarrow> bool" where
  "fgt x y = flt y x"

section \<open>Column operations of pandas\<close>

text \<open>
  Frames carry the default integer range index of the host, so a row is addressed by its
  position.  \<open>shift k\<close> moves a column down by \<open>k\<close> rows and fills the top with \<open>NaN\<close>.
\<close>

definition shift :: "nat \<Rightarrow> fval list \<Rightarrow> fval list" where
  "shift k xs = take (length xs) (replicate k NaN @ xs)"

text \<open>
  \<open>Series.rolling(window, min_periods).agg()\<close> on a column without missing values: the
  window of row \<open>i\<close> holds the rows \<open>i - window + 1, ..., i\<close> that exist; the cell is \<open>NaN\<close>
  while the window holds fewer than \<open>min_periods\<close> observations.  \<open>min_periods\<close> defaults
  to the window size, and pandas raises \<open>ValueError\<close> when it exceeds the window.
\<close>

definition rolling_window :: "nat \<Rightarrow> nat \<Rightarrow> real list \<Rightarrow> real list" where
  "rolling_window window i xs = drop (Suc i - window) (take (Suc i) xs)"

definition rolling :: "nat \<Rightarrow> nat option \<Rightarrow> (real list \<Rightarrow> real) \<Rightarrow> real list
    \<Rightarrow> py_error + fval list" where
  "rolling window min_periods agg xs =
     (let mp = (case min_periods of None \<Rightarrow> window | Some m \<Rightarrow> m) in
      if window < mp then Inl ValueError
      else Inr (map (\<lambda>i. let w = rolling_window window i xs in
                          if w \<noteq> [] \<and> mp \<le> length w then Fin (agg w) else NaN)
                    [0..<length xs]))"

definition list_max :: "real list \<Rightarrow> real" where
  "list_max w = Max (set w)"

definition list_min :: "real list \<Rightarrow> real" where
  "list_min w = Min (set w)"

definition cummax :: "real list \<Rightarrow> fval list" where
  "cummax xs = map (\<lambda>i. Fin (list_max (take (Suc i) xs))) [0..<length xs]"

section \<open>Candles, analysed rows and parameters\<close>

text \<open>
  A candle of the host: the column \<open>open\<close> is named \<open>open_price\<close> here, and the
  \<open>date\<close> column, which the strategy never reads, is left out.  Candle values are
  finite.
\<close>

record candle =
  open_price :: real
  high :: real
  low :: real
  close :: real
  volume :: real

record indicators = candle +
  rsi :: fval
  macd :: fval
  macdsignal :: fval
  ema_short :: fval
  ema_long :: fval
  previous_close :: fval
  max_since_buy :: fval
  atr :: fval
  pp :: fval
  r1 :: fval
  s1 :: fval
  pivot_point :: fval
  resistance_1 :: fval
  support_1 :: fval
  swing_low :: fval
  swing_high :: fval
  resistance_signal :: bool
  hh :: fval
  ll :: fval
  buyPower :: fval
  sellPower :: fval
  ttf :: fval

text \<open>
  The signal columns are absent until a signal function assigns them; an unassigned cell
  is \<open>None\<close>.
\<close>

record row = indicators +
  enter_long :: "int option"
  enter_tag :: "string option"
  exit_long :: "int option"
  exit_tag :: "string option"

text \<open>The tunable parameters that the code reads, with their declared spaces.\<close>

record params =
  new_sl_coef :: real
  lookback_length :: nat
  upper_trigger_level :: int
  lower_trigger_level :: int
  swing_window :: nat
  swing_min_periods :: nat
  buy_ema_short :: nat
  buy_ema_long :: nat
  dca_candles_modulo :: int
  dca_threshold :: real

definition default_params :: params where
  "default_params =
     \<lparr>new_sl_coef = 0.75, lookback_length = 15, upper_trigger_level = 100,
      lower_trigger_level = - 100, swing_window = 50, swing_min_periods = 10,
      buy_ema_short = 10, buy_ema_long = 50, dca_candles_modulo = 10,
      dca_threshold = 0.01\<rparr>"


text \<open>
  The indicator libraries (TA-Lib, qtpylib) are not part of the repository: their
  functions are parameters.  Each returns a column as a function of the row position.
  The three Bollinger band columns, which \<open>populate_indicators\<close> takes from qtpylib and
  no function of the strategy reads, are left out of the row.
\<close>

record extern =
  RSI :: "candle list \<Rightarrow> nat \<Rightarrow> nat \<Rightarrow> fval"
  MACD :: "candle list \<Rightarrow> (nat \<Rightarrow> fval) \<times> (nat \<Rightarrow> fval)"
  EMA :: "candle list \<Rightarrow> nat \<Rightarrow> nat \<Rightarrow> fval"
  ATR :: "candle list \<Rightarrow> nat \<Rightarrow> nat \<Rightarrow> fval"

section \<open>Indicator computation\<close>

definition calculate_swing :: "params \<Rightarrow> candle list \<Rightarrow> py_error + (fval list \<times> fval list)" where
  "calculate_swing P dataframe =
     (case rolling (swing_window P) (Some (swing_min_periods P)) list_min (map low dataframe) of
        Inl e \<Rightarrow> Inl e
      | Inr swing_low_c \<Rightarrow>
          (case rolling (swing_window P) (Some (swing_min_periods P)) list_max
                  (map high dataframe) of
             Inl e \<Rightarrow> Inl e
           | Inr swing_high_c \<Rightarrow> Inr (swing_low_c, swing_high_c)))"

definition calculate_pivots :: "candle list \<Rightarrow> fval list \<times> fval list \<times> fval list" where
  "calculate_pivots dataframe =
     (let high1 = shift 1 (map (\<lambda>c. Fin (high c)) dataframe);
          low1 = shift 1 (map (\<lambda>c. Fin (low c)) dataframe);
          close1 = shift 1 (map (\<lambda>c. Fin (close c)) dataframe);
          pp_c = map (\<lambda>x. fdiv x (Fin 3)) (map2 fadd (map2 fadd high1 low1) close1);
          r1_c = map2 fsub (map (fmul (Fin 2)) pp_c) low1;
          s1_c = map2 fsub (map (fmul (Fin 2)) pp_c) high1
      in (pp_c, r1_c, s1_c))"

definition custom_stake_amount :: "real \<Rightarrow> real" where
  "custom_stake_amount proposed_stake = round53 (proposed_stake / 4)"

definition populate_indicators :: "params \<Rightarrow> extern \<Rightarrow> candle list \<Rightarrow> py_error + row list" where
  "populate_indicators P X dataframe =
     (let close_c = map (\<lambda>c. Fin (close c)) dataframe;
          rsi_c = RSI X dataframe 14;
          (macd_c, macdsignal_c) = MACD X dataframe;
          ema_short_c = EMA X dataframe (buy_ema_short P);
          ema_long_c = EMA X dataframe (buy_ema_long P);
          previous_close_c = shift 1 close_c;
          max_since_buy_c = cummax (map high dataframe);
          atr_c = ATR X dataframe 14;
          (pp_c, r1_c, s1_c) = calculate_pivots dataframe
      in case calculate_swing P dataframe of
           Inl e \<Rightarrow> Inl e
         | Inr (swing_low_c, swing_high_c) \<Rightarrow>
      (let resistance_signal_c =
             map2 (\<and>) (map2 fgt close_c r1_c) (map2 fgt close_c previous_close_c)
       in case rolling (lookback_length P) None list_max (map close dataframe) of
            Inl e \<Rightarrow> Inl e
          | Inr hh_c \<Rightarrow>
      (case rolling (lookback_length P) None list_min (map close dataframe) of
            Inl e \<Rightarrow> Inl e
          | Inr ll_c \<Rightarrow>
      (let buyPower_c = map2 fsub hh_c (shift (lookback_length P) ll_c);
           sellPower_c = map2 fsub (shift (lookback_length P) hh_c) ll_c;
           ttf_c = map2 fdiv (map (fmul (Fin 200)) (map2 fsub buyPower_c sellPower_c))
                     (map2 fadd buyPower_c sellPower_c)
       in Inr (map (\<lambda>i.
            \<lparr>open_price = open_price (dataframe ! i), high = high (dataframe ! i),
             low = low (dataframe ! i), close = close (dataframe ! i),
             volume = volume (dataframe ! i),
             rsi = rsi_c i, macd = macd_c i, macdsignal = macdsignal_c i,
             ema_short = ema_short_c i, ema_long = ema_long_c i,
             previous_close = previous_close_c ! i, max_since_buy = max_since_buy_c ! i,
             atr = atr_c i, pp = pp_c ! i, r1 = r1_c ! i, s1 = s1_c ! i,
             pivot_point = pp_c ! i, resistance_1 = r1_c ! i, support_1 = s1_c ! i,
             swing_low = swing_low_c ! i, swing_high = swing_high_c ! i,
             resistance_signal = resistance_signal_c ! i,
             hh = hh_c ! i, ll = ll_c ! i, buyPower = buyPower_c ! i,
             sellPower = sellPower_c ! i, ttf = ttf_c ! i,
             enter_long = None, enter_tag = None, exit_long = None, exit_tag = None\<rparr>)
          [0..<length dataframe])))))"

section \<open>Strategy state and host interfaces\<close>

text \<open>
  A queued manual command is a dictionary with the keys \<open>pair\<close> and \<open>command\<close>.  The
  host's data provider hands out candle frames; an unavailable frame is empty.
\<close>

record manual_command =
  pair :: string
  command :: string

record data_provider =
  get_pair_dataframe :: "string \<Rightarrow> string \<Rightarrow> candle list"
  get_analyzed_dataframe :: "string \<Rightarrow> string \<Rightarrow> row list"

record strategy =
  parameters :: params
  timeframe :: string
  commands :: "manual_command list"
  dp :: data_provider

definition timeframe_hierarchy :: "(string \<times> string) list" where
  "timeframe_hierarchy =
     [(''1m'', ''5m''), (''5m'', ''15m''), (''15m'', ''1h''), (''1h'', ''4h''),
      (''4h'', ''1d''), (''1d'', ''1w''), (''1w'', ''1M'')]"

section \<open>Entry and exit signals\<close>

text \<open>
  The test that opens both signal functions: the queue is not empty, its last command
  names the pair under evaluation and carries the given action.  A command that applies
  takes every command of its pair out of the queue (\<open>drop_pair\<close>).
\<close>

definition manual_applies :: "strategy \<Rightarrow> string \<Rightarrow> string \<Rightarrow> bool" where
  "manual_applies self metadata_pair action =
     (if length (commands self) > 0 then
        (if pair (last (commands self)) = metadata_pair then
           command (last (commands self)) = action
         else False)
      else False)"

definition drop_pair :: "string \<Rightarrow> manual_command list \<Rightarrow> manual_command list" where
  "drop_pair p cs = filter (\<lambda>s. pair s \<noteq> p) cs"

text \<open>\<open>dataframe.loc[selected, [column, tag column]] = (value, tag)\<close> for the two signal pairs.\<close>

definition loc_set_enter :: "bool list \<Rightarrow> int \<Rightarrow> string \<Rightarrow> row list \<Rightarrow> row list" where
  "loc_set_enter selected v tag dataframe =
     map (\<lambda>i. if selected ! i then (dataframe ! i)\<lparr>enter_long := Some v, enter_tag := Some tag\<rparr>
               else dataframe ! i) [0..<length dataframe]"

definition loc_set_exit :: "bool list \<Rightarrow> int \<Rightarrow> string \<Rightarrow> row list \<Rightarrow> row list" where
  "loc_set_exit selected v tag dataframe =
     map (\<lambda>i. if selected ! i then (dataframe ! i)\<lparr>exit_long := Some v, exit_tag := Some tag\<rparr>
               else dataframe ! i) [0..<length dataframe]"

text \<open>\<open>np.logical_and.reduce\<close> over a list of boolean columns of \<open>n\<close> rows.\<close>

definition logical_and_reduce :: "nat \<Rightarrow> bool list list \<Rightarrow> bool list" where
  "logical_and_reduce n conditions = map (\<lambda>i. list_all (\<lambda>c. c ! i) conditions) [0..<n]"

text \<open>
  \<open>informative.reindex(dataframe.index, method='nearest')\<close> on range indexes: the label
  \<open>i\<close> of the target takes row \<open>i\<close> of a non-empty frame, or its last row beyond the end.
\<close>

definition reindex_nearest :: "nat \<Rightarrow> candle list \<Rightarrow> candle list" where
  "reindex_nearest n informative =
     map (\<lambda>i. informative ! min i (length informative - 1)) [0..<n]"

definition entry_technical :: "params \<Rightarrow> row \<Rightarrow> bool" where
  "entry_technical P r \<longleftrightarrow>
     (fgt (macd r) (macdsignal r) \<and> fgt (ema_short r) (ema_long r)) \<or>
     (resistance_signal r \<and> volume r > 0) \<or>
     fgt (ttf r) (Fin (of_int (upper_trigger_level P)))"

text \<open>
  \<open>populate_entry_trend\<close> returns the frame, the strategy with its queue and the records
  it logs; it raises \<open>KeyError\<close> when the configured timeframe has no entry in the
  hierarchy.  The list \<open>conditions\<close> holds boolean columns, as in the source.
\<close>

definition no_data_message :: "string \<Rightarrow> string \<Rightarrow> string" where
  "no_data_message p level =
     ''No data available for '' @ p @ '' in '' @ [CHR 0x27] @ level @ [CHR 0x27] @
     '' timeframe. Skipping this condition.''"

definition populate_entry_trend :: "strategy \<Rightarrow> row list \<Rightarrow> string
    \<Rightarrow> py_error + (row list \<times> strategy \<times> string list)" where
  "populate_entry_trend self dataframe metadata_pair =
     (if manual_applies self metadata_pair ''BUY'' then
        Inr (loc_set_enter (map (\<lambda>r. volume r > 0) dataframe) 1 ''trigger_buy'' dataframe,
             self\<lparr>commands := drop_pair (pair (last (commands self))) (commands self)\<rparr>,
             [])
      else
        (let conditions = [map (entry_technical (parameters self)) dataframe] in
         case map_of timeframe_hierarchy (timeframe self) of
           None \<Rightarrow> Inl KeyError
         | Some level \<Rightarrow>
        (let informative = get_pair_dataframe (dp self) metadata_pair level;
             (conditions, logs) =
               (if informative \<noteq> [] then
                  (let informative = reindex_nearest (length dataframe) informative in
                   (conditions @
                      [map2 flt (map (\<lambda>r. Fin (close r)) dataframe)
                         (shift 1 (map (\<lambda>c. Fin (close c)) informative))],
                    []))
                else (conditions, [no_data_message metadata_pair level]));
             final_condition = logical_and_reduce (length dataframe) conditions
         in Inr (loc_set_enter final_condition 1 ''multi_timeframe_cross'' dataframe,
                 self, logs))))"

definition exit_technical :: "params \<Rightarrow> row \<Rightarrow> bool" where
  "exit_technical P r \<longleftrightarrow>
     fgt (Fin (close r)) (swing_high r) \<or>
     (flt (macd r) (macdsignal r) \<and> flt (ema_short r) (ema_long r)) \<or>
     flt (ttf r) (Fin (of_int (lower_trigger_level P)))"

definition populate_exit_trend :: "strategy \<Rightarrow> row list \<Rightarrow> string
    \<Rightarrow> row list \<times> strategy" where
  "populate_exit_trend self dataframe metadata_pair =
     (if manual_applies self metadata_pair ''SELL'' then
        (loc_set_exit (map (\<lambda>r. volume r > 0) dataframe) 1 ''trigger_sell'' dataframe,
         self\<lparr>commands := drop_pair (pair (last (commands self))) (commands self)\<rparr>)
      else
        (let conditions = [map (exit_technical (parameters self)) dataframe,
                           map (\<lambda>r. volume r > 0) dataframe];
             exit_condition = logical_and_reduce (length dataframe) conditions
         in (loc_set_exit exit_condition 1 ''macd_ema_exit'' dataframe, self)))"

section \<open>Exit confirmation, custom stop-loss and position adjustment\<close>

record trade =
  trade_id :: nat
  trade_pair :: string
  stake_amount :: real
  stop_loss :: real
  calc_profit_ratio :: "real \<Rightarrow> real"

definition confirm_trade_exit :: "trade \<Rightarrow> real \<Rightarrow> string \<Rightarrow> bool" where
  "confirm_trade_exit trade rate exit_reason =
     (let profit_ratio = calc_profit_ratio trade rate in
      if sublist ''macd_ema_exit'' exit_reason \<and> profit_ratio \<ge> 0.005 then True
      else if (sublist ''trailing'' exit_reason \<or> sublist ''roi'' exit_reason)
              \<and> profit_ratio \<ge> 0.005 then True
      else if sublist ''force'' exit_reason \<or> sublist ''trigger'' exit_reason then True
      else False)"

text \<open>
  The host's per-trade store, restricted to the two keys the strategy uses: \<open>SL\<close> holds a
  number and \<open>DCA\<close> a list of prices.  A lookup answers with the list of matching
  records.  While the store is unavailable every call to it raises, a lookup as well as
  a write; the strategy guards its lookups with \<open>try\<close> and \<open>except\<close> and leaves its
  writes unguarded.
\<close>

record custom_data =
  sl_data :: "nat \<rightharpoonup> real"
  dca_data :: "nat \<rightharpoonup> real list"
  unavailable :: bool

definition get_custom_data_SL :: "custom_data \<Rightarrow> nat \<Rightarrow> py_error + real list" where
  "get_custom_data_SL store tid =
     (if unavailable store then Inl HostError
      else Inr (case sl_data store tid of None \<Rightarrow> [] | Some v \<Rightarrow> [v]))"

definition get_custom_data_DCA :: "custom_data \<Rightarrow> nat \<Rightarrow> py_error + real list list" where
  "get_custom_data_DCA store tid =
     (if unavailable store then Inl HostError
      else Inr (case dca_data store tid of None \<Rightarrow> [] | Some v \<Rightarrow> [v]))"

definition set_custom_data_SL :: "custom_data \<Rightarrow> nat \<Rightarrow> real \<Rightarrow> py_error + custom_data" where
  "set_custom_data_SL store tid v =
     (if unavailable store then Inl HostError
      else Inr (store\<lparr>sl_data := (sl_data store)(tid \<mapsto> v)\<rparr>))"

definition set_custom_data_DCA :: "custom_data \<Rightarrow> nat \<Rightarrow> real list
    \<Rightarrow> py_error + custom_data" where
  "set_custom_data_DCA store tid v =
     (if unavailable store then Inl HostError
      else Inr (store\<lparr>dca_data := (dca_data store)(tid \<mapsto> v)\<rparr>))"

definition first_value :: "py_error + 'a list \<Rightarrow> py_error + 'a" where
  "first_value res =
     (case res of Inl e \<Rightarrow> Inl e | Inr [] \<Rightarrow> Inl IndexError | Inr (x # _) \<Rightarrow> Inr x)"

definition get_dca_list :: "custom_data \<Rightarrow> trade \<Rightarrow> real list" where
  "get_dca_list store trade =
     (case first_value (get_custom_data_DCA store (trade_id trade)) of
        Inr dcas \<Rightarrow> dcas
      | Inl ex \<Rightarrow> [])"

definition get_mk_sl :: "custom_data \<Rightarrow> trade \<Rightarrow> real" where
  "get_mk_sl store trade =
     (case first_value (get_custom_data_SL store (trade_id trade)) of
        Inr sl \<Rightarrow> sl
      | Inl ex \<Rightarrow> stop_loss trade)"

definition set_mk_sl :: "params \<Rightarrow> custom_data \<Rightarrow> trade \<Rightarrow> real
    \<Rightarrow> py_error + custom_data" where
  "set_mk_sl P store trade current_rate =
     (let sl = round53 (current_rate * new_sl_coef P) in
      set_custom_data_SL store (trade_id trade) sl)"

definition confirm_dca :: "params \<Rightarrow> custom_data \<Rightarrow> real \<Rightarrow> trade
    \<Rightarrow> py_error + custom_data" where
  "confirm_dca P store current_rate trade =
     (let dcas = get_dca_list store trade;
          dcas = dcas @ [current_rate]
      in case set_mk_sl P store trade current_rate of
           Inl e \<Rightarrow> Inl e
         | Inr store \<Rightarrow> set_custom_data_DCA store (trade_id trade) dcas)"

text \<open>
  The exit reason of \<open>custom_exit\<close> is a format string: its literal part and the number
  interpolated into it.
\<close>

definition custom_exit :: "custom_data \<Rightarrow> trade \<Rightarrow> real \<Rightarrow> (string \<times> real) option" where
  "custom_exit store trade current_rate =
     (let sl = get_mk_sl store trade in
      if current_rate \<le> sl then Some (''custom_stop_loss_'', sl) else None)"

text \<open>
  \<open>adjust_trade_position\<close> returns the additional stake, or \<open>None\<close> for no adjustment,
  and the store it leaves; it raises when a write of \<open>confirm_dca\<close> raises.  The literal
  \<open>0.995\<close> is the float nearest to it, and the product with it is rounded.  The index of
  a frame is the range index, so the label of the last candle is its position; Python's
  \<open>%\<close> raises on a zero divisor and agrees with \<open>mod\<close> on integers otherwise.  The log
  records of this function interpolate numbers and are not modelled.
\<close>

definition frame_index :: "'a list \<Rightarrow> int list" where
  "frame_index dataframe = map int [0..<length dataframe]"

definition adjust_trade_position :: "strategy \<Rightarrow> custom_data \<Rightarrow> trade \<Rightarrow> real \<Rightarrow> real
    \<Rightarrow> py_error + (real option \<times> custom_data)" where
  "adjust_trade_position self store trade current_rate current_profit =
     (let dcas = get_dca_list store trade in
      if length dcas > 0 \<and> current_rate \<ge> round53 (last dcas * round53 0.995)
      then Inr (None, store)
      else if current_profit \<ge> - dca_threshold (parameters self) then Inr (None, store)
      else
        (let dataframe = get_analyzed_dataframe (dp self) (trade_pair trade) (timeframe self)
         in if dataframe = [] then Inr (None, store)
            else
              (let last_candle = last dataframe;
                   last_index = last (frame_index dataframe);
                   dca_list = get_dca_list store trade
               in if dca_list \<noteq> [] \<and> current_rate > last dca_list then Inr (None, store)
                  else if dca_candles_modulo (parameters self) = 0 then Inl ZeroDivisionError
                  else if last_index mod dca_candles_modulo (parameters self) \<noteq> 0
                    then Inr (None, store)
                  else if resistance_signal last_candle then
                    (case confirm_dca (parameters self) store current_rate trade of
                       Inl e \<Rightarrow> Inl e
                     | Inr store' \<Rightarrow> Inr (Some (stake_amount trade), store'))
                  else Inr (None, store))))"

section \<open>Example inputs\<close>

text \<open>
  A four-candle frame on the five-minute timeframe: two flat candles at 1000 (the second
  without trades), a dip to 980 and a rebound to 995.  On a frame this short RSI, MACD,
  EMA and ATR are still in their warm-up periods, so their columns are \<open>NaN\<close>
  (\<open>no_extern\<close>).  \<open>short_params\<close> lies in the declared spaces, with the windows
  scaled to the frame.  The host serves a one-candle informative frame for two pairs and
  none for the third.  The last close of \<open>ulp_frame\<close> is the float nearest to 105.3,
  and the rate tried on \<open>edge_store\<close> is the float just below 907.44.
\<close>

definition flat_candle :: "real \<Rightarrow> real \<Rightarrow> candle" where
  "flat_candle x v = \<lparr>open_price = x, high = x, low = x, close = x, volume = v\<rparr>"

definition no_extern :: extern where
  "no_extern = \<lparr>RSI = (\<lambda>_ _ _. NaN), MACD = (\<lambda>_. ((\<lambda>_. NaN), (\<lambda>_. NaN))),
     EMA = (\<lambda>_ _ _. NaN), ATR = (\<lambda>_ _ _. NaN)\<rparr>"

definition short_params :: params where
  "short_params = default_params\<lparr>lookback_length := 2, swing_window := 10,
     swing_min_periods := 1, dca_candles_modulo := 3\<rparr>"

definition dip_frame :: "candle list" where
  "dip_frame =
     [flat_candle 1000 10, flat_candle 1000 0,
      \<lparr>open_price = 990, high = 990, low = 970, close = 980, volume = 30\<rparr>,
      \<lparr>open_price = 980, high = 995, low = 980, close = 995, volume = 8\<rparr>]"

definition dip_rows :: "row list" where
  "dip_rows = projr (populate_indicators short_params no_extern dip_frame)"





definition host_dp :: data_provider where
  "host_dp =
     \<lparr>get_pair_dataframe = (\<lambda>p tf.
        if p = ''BTC/USD'' \<and> tf = ''15m'' then [flat_candle 1200 50]
        else if p = ''LTC/USD'' \<and> tf = ''15m'' then [flat_candle 900 50]
        else []),
      get_analyzed_dataframe = (\<lambda>p tf. if p = ''BTC/USD'' \<and> tf = ''5m'' then dip_rows else [])\<rparr>"

definition idle_strategy :: strategy where
  "idle_strategy = \<lparr>parameters = short_params, timeframe = ''5m'', commands = [], dp = host_dp\<rparr>"

definition dip_entered :: "row list" where
  "dip_entered = fst (projr (populate_entry_trend idle_strategy dip_rows ''BTC/USD''))"

definition dip_exited :: "row list" where
  "dip_exited = fst (populate_exit_trend idle_strategy dip_entered ''BTC/USD'')"

definition buy_strategy :: strategy where
  "buy_strategy = idle_strategy\<lparr>commands :=
     [\<lparr>pair = ''ETH/USD'', command = ''SELL''\<rparr>, \<lparr>pair = ''BTC/USD'', command = ''SELL''\<rparr>,
      \<lparr>pair = ''BTC/USD'', command = ''BUY''\<rparr>]\<rparr>"

definition buried_strategy :: strategy where
  "buried_strategy = idle_strategy\<lparr>commands :=
     [\<lparr>pair = ''BTC/USD'', command = ''BUY''\<rparr>, \<lparr>pair = ''ETH/USD'', command = ''SELL''\<rparr>]\<rparr>"

definition manual_entered :: "row list" where
  "manual_entered = fst (projr (populate_entry_trend buy_strategy dip_rows ''BTC/USD''))"

definition buried_entered :: "row list" where
  "buried_entered = fst (projr (populate_entry_trend buried_strategy dip_rows ''BTC/USD''))"

definition btc_trade :: trade where
  "btc_trade =
     \<lparr>trade_id = 40, trade_pair = ''BTC/USD'', stake_amount = 25, stop_loss = 900,
      calc_profit_ratio = (\<lambda>rate. (rate - 1000) / 1000)\<rparr>"

definition slow_strategy :: strategy where
  "slow_strategy = idle_strategy\<lparr>parameters := short_params\<lparr>dca_candles_modulo := 2\<rparr>\<rparr>"

definition empty_store :: custom_data where
  "empty_store = \<lparr>sl_data = Map.empty, dca_data = Map.empty, unavailable = False\<rparr>"

definition first_dca_store :: custom_data where
  "first_dca_store = empty_store\<lparr>sl_data := [40 \<mapsto> 712.5], dca_data := [40 \<mapsto> [950]]\<rparr>"

definition edge_store :: custom_data where
  "edge_store = empty_store\<lparr>sl_data := [40 \<mapsto> 684], dca_data := [40 \<mapsto> [912]]\<rparr>"

section \<open>Rounding to binary64\<close>

text \<open>
  \<open>round53\<close> is odd and monotone, it is exact on every integer multiple of a power of
  two whose multiplier is below \<open>2^53\<close>, and its relative error is at most \<open>2^-53\<close>.
  \<open>round53_eval\<close> computes it on a number whose binade is known.
\<close>

lemma rne_of_int [simp]: "rne (of_int n) = n"
  by (simp add: rne_def)

lemma rne_bounds: "\<lfloor>y\<rfloor> \<le> rne y" "rne y \<le> \<lfloor>y\<rfloor> + 1"
  by (simp_all add: rne_def Let_def)


lemma rne_mono:
  assumes "y \<le> z"
  shows "rne y \<le> rne z"
proof (cases "\<lfloor>y\<rfloor> = \<lfloor>z\<rfloor>")
  case True
  with assms show ?thesis
    by (simp add: rne_def Let_def)
next
  case False
  then have "\<lfloor>y\<rfloor> + 1 \<le> \<lfloor>z\<rfloor>"
    using floor_mono [OF assms] by linarith
  then show ?thesis
    using rne_bounds(2) [of y] rne_bounds(1) [of z] by linarith
qed

lemma rne_minus: "rne (- y) = - rne y"
proof (cases "y = of_int \<lfloor>y\<rfloor>")
  case True
  then obtain n where "y = of_int n" ..
  then have "- y = of_int (- n)" by simp
  then show ?thesis
    using \<open>y = of_int n\<close> by (simp only: rne_of_int)
next
  case False
  then have fl: "\<lfloor>- y\<rfloor> = - \<lfloor>y\<rfloor> - 1"
    by (simp add: floor_minus ceiling_altdef)
  show ?thesis
    unfolding rne_def Let_def fl
    by (auto simp: even_diff_iff) 
qed

lemma powr2_int: "(2::real) powr (of_int k) = 2 powi k"
  by (simp add: powr_real_of_int')

lemma powr2_int_Suc: "(2::real) powr (of_int k + 1) = 2 powi (k + 1)"
  using powr2_int [of "k + 1"] by simp

lemma binade_bounds:
  assumes "x \<noteq> 0"
  shows "2 powi binade x \<le> \<bar>x\<bar>" and "\<bar>x\<bar> < 2 powi (binade x + 1)"
proof -
  have pos: "0 < \<bar>x\<bar>" using assms by simp
  have "2 powr (of_int (binade x)) \<le> \<bar>x\<bar> \<and> \<bar>x\<bar> < 2 powr (of_int (binade x + 1))"
    using floor_log_eq_powr_iff [OF pos, of 2 "binade x"] by (simp add: binade_def)
  then show "2 powi binade x \<le> \<bar>x\<bar>" and "\<bar>x\<bar> < 2 powi (binade x + 1)"
    by (simp_all add: powr2_int powr2_int_Suc)
qed

lemma binade_eqI:
  assumes "2 powi k \<le> \<bar>x\<bar>" and "\<bar>x\<bar> < 2 powi (k + 1)"
  shows "binade x = k"
proof -
  have "(0::real) < 2 powi k" by simp
  then have pos: "0 < \<bar>x\<bar>"
    using assms(1) by linarith
  have "2 powr (of_int k) \<le> \<bar>x\<bar> \<and> \<bar>x\<bar> < 2 powr (of_int (k + 1))"
    using assms by (simp add: powr2_int powr2_int_Suc)
  then show ?thesis
    using floor_log_eq_powr_iff [OF pos, of 2 k] by (simp add: binade_def)
qed

lemma binade_minus [simp]: "binade (- x) = binade x"
  by (simp add: binade_def)

lemma binade_mono:
  assumes "0 < x" and "x \<le> y"
  shows "binade x \<le> binade y"
  using assms by (simp add: binade_def floor_mono)

lemma binade_scale:
  assumes "x \<noteq> 0"
  shows "binade (x * 2 powi k) = binade x + k"
proof (rule binade_eqI)
  have "2 powi binade x * 2 powi k \<le> \<bar>x\<bar> * 2 powi k"
    using binade_bounds(1) [OF assms] by (simp only: mult_le_cancel_right_pos zero_less_power_int zero_less_numeral)
  then show "2 powi (binade x + k) \<le> \<bar>x * 2 powi k\<bar>"
    by (simp add: power_int_add abs_mult)
  have "\<bar>x\<bar> * 2 powi k < 2 powi (binade x + 1) * 2 powi k"
    using binade_bounds(2) [OF assms] by (simp only: mult_less_cancel_right_pos zero_less_power_int zero_less_numeral)
  then show "\<bar>x * 2 powi k\<bar> < 2 powi (binade x + k + 1)"
    by (simp add: power_int_add abs_mult)
qed

lemma round53_zero [simp]: "round53 0 = 0"
  by (simp add: round53_def)

lemma round53_minus: "round53 (- x) = - round53 x"
  by (simp add: round53_def rne_minus)



lemma scale_52: "(2::real) ^ 52 * 2 powi (k - 52) = 2 powi k"
  and scale_53: "(2::real) ^ 53 * 2 powi (k - 52) = 2 powi (k + 1)"
proof -
  have "(2::real) powi k = 2 powi (52 + (k - 52))" by simp
  also have "\<dots> = 2 powi 52 * 2 powi (k - 52)"
    by (subst power_int_add) simp_all
  finally show "(2::real) ^ 52 * 2 powi (k - 52) = 2 powi k" by simp
  have "k + 1 = 53 + (k - 52)" by simp
  then have "(2::real) powi (k + 1) = 2 powi (53 + (k - 52))" by (rule arg_cong)
  also have "\<dots> = 2 powi 53 * 2 powi (k - 52)"
    by (subst power_int_add) simp_all
  finally show "(2::real) ^ 53 * 2 powi (k - 52) = 2 powi (k + 1)" by simp
qed

lemma scaled_range:
  assumes "0 < x"
  shows "2 ^ 52 \<le> x / 2 powi (binade x - 52)" and "x / 2 powi (binade x - 52) < 2 ^ 53"
proof -
  let ?s = "2 powi (binade x - 52) :: real"
  have s: "0 < ?s" by simp
  have "2 powi binade x \<le> x" and "x < 2 powi (binade x + 1)"
    using binade_bounds [of x] assms by simp_all
  then have "2 ^ 52 * ?s \<le> x" and "x < 2 ^ 53 * ?s"
    by (simp_all only: scale_52 scale_53)
  then show "2 ^ 52 \<le> x / ?s" and "x / ?s < 2 ^ 53"
    using s by (simp_all add: pos_le_divide_eq pos_divide_less_eq)
qed

lemma rne_scaled_range:
  assumes "0 < x"
  shows "2 ^ 52 \<le> rne (x / 2 powi (binade x - 52))"
    and "rne (x / 2 powi (binade x - 52)) \<le> 2 ^ 53"
proof -
  let ?y = "x / 2 powi (binade x - 52)"
  have "rne (of_int (2 ^ 52)) \<le> rne ?y"
    using scaled_range(1) [OF assms] by (intro rne_mono) simp
  then show "2 ^ 52 \<le> rne ?y" by (simp only: rne_of_int)
  have "rne ?y \<le> rne (of_int (2 ^ 53))"
    using scaled_range(2) [OF assms] by (intro rne_mono) simp
  then show "rne ?y \<le> 2 ^ 53" by (simp only: rne_of_int)
qed

lemma round53_pos_bounds:
  assumes "0 < x"
  shows "2 powi binade x \<le> round53 x" and "round53 x \<le> 2 powi (binade x + 1)"
proof -
  let ?s = "2 powi (binade x - 52) :: real"
  let ?n = "rne (x / ?s)"
  have s: "0 < ?s" by simp
  have r: "round53 x = of_int ?n * ?s"
    using assms by (simp add: round53_def)
  have "(2::real) ^ 52 \<le> of_int ?n" and "of_int ?n \<le> (2::real) ^ 53"
    using rne_scaled_range [OF assms] by (simp_all add: of_int_le_iff [symmetric] del: of_int_le_iff)
  then have "2 ^ 52 * ?s \<le> of_int ?n * ?s" and "of_int ?n * ?s \<le> 2 ^ 53 * ?s"
    using s by (simp_all only: mult_le_cancel_right_pos)
  then show "2 powi binade x \<le> round53 x" and "round53 x \<le> 2 powi (binade x + 1)"
    by (simp_all only: r scale_52 scale_53)
qed

lemma round53_pos:
  assumes "0 < x"
  shows "0 < round53 x"
proof -
  have "(0::real) < 2 powi binade x" by simp
  then show ?thesis
    using round53_pos_bounds(1) [OF assms] by linarith
qed

lemma round53_mono_pos:
  assumes "0 < x" and "x \<le> y"
  shows "round53 x \<le> round53 y"
proof (cases "binade x = binade y")
  case True
  let ?s = "2 powi (binade y - 52) :: real"
  have s: "0 < ?s" by simp
  have "x / ?s \<le> y / ?s"
    using assms(2) s by (rule divide_right_mono [OF _ less_imp_le])
  then have "rne (x / ?s) \<le> rne (y / ?s)" by (rule rne_mono)
  then have "of_int (rne (x / ?s)) * ?s \<le> of_int (rne (y / ?s)) * ?s"
    using s by (simp only: mult_le_cancel_right_pos of_int_le_iff)
  then show ?thesis
    using assms True by (simp add: round53_def)
next
  case False
  then have "binade x + 1 \<le> binade y"
    using binade_mono [OF assms] by simp
  then have "(2::real) powi (binade x + 1) \<le> 2 powi binade y"
    by (intro power_int_increasing) simp_all
  moreover have "0 < y" using assms by simp
  ultimately show ?thesis
    using round53_pos_bounds(2) [OF assms(1)] round53_pos_bounds(1) [of y] by linarith
qed

lemma round53_mono:
  assumes "x \<le> y"
  shows "round53 x \<le> round53 y"
proof -
  consider "0 < x" | "x \<le> 0" "0 \<le> y" | "y < 0" by linarith
  then show ?thesis
  proof cases
    case 1
    then show ?thesis using assms by (rule round53_mono_pos)
  next
    case 2
    have "round53 x \<le> 0"
      using 2(1) round53_pos [of "- x"] by (cases "x = 0") (simp_all add: round53_minus)
    moreover have "0 \<le> round53 y"
      using 2(2) round53_pos [of y] by (cases "y = 0") simp_all
    ultimately show ?thesis by simp
  next
    case 3
    then have "round53 (- y) \<le> round53 (- x)"
      using assms by (intro round53_mono_pos) simp_all
    then show ?thesis by (simp add: round53_minus)
  qed
qed

lemma round53_exact:
  assumes "\<bar>m\<bar> < 2 ^ 53"
  shows "round53 (of_int m * 2 powi k) = of_int m * 2 powi k"
proof (cases "m = 0")
  case True
  then show ?thesis by simp
next
  case False
  define j where "j = binade (of_int m)"
  define a :: real where "a = 2 powi (52 - j)"
  define s :: real where "s = 2 powi (j + k - 52)"
  define x :: real where "x = of_int m * 2 powi k"
  have m0: "(of_int m :: real) \<noteq> 0" using False by simp
  have s: "0 < s" by (simp add: s_def)
  have "real_of_int \<bar>m\<bar> < real_of_int (2 ^ 53)"
    using assms by (simp only: of_int_less_iff)
  then have m53: "\<bar>real_of_int m\<bar> < 2 powi 53" by simp
  have "j < 53"
  proof (rule ccontr)
    assume "\<not> j < 53"
    then have "(2::real) powi 53 \<le> 2 powi j"
      by (intro power_int_increasing) simp_all
    moreover have "(2::real) powi j \<le> \<bar>of_int m\<bar>"
      unfolding j_def using binade_bounds(1) [OF m0] .
    ultimately show False using m53 by linarith
  qed
  then have n: "52 - j = int (nat (52 - j))" by simp
  have a: "a = of_int (2 ^ nat (52 - j))"
    unfolding a_def by (subst n) (simp only: power_int_of_nat of_int_power of_int_numeral)
  have "(2::real) powi ((52 - j) + (j + k - 52)) = 2 powi (52 - j) * 2 powi (j + k - 52)"
    by (rule power_int_add) simp
  moreover have "(52 - j) + (j + k - 52) = k" by simp
  ultimately have as: "a * s = 2 powi k"
    by (simp only: a_def s_def)
  have xs: "x = (of_int m * a) * s"
    unfolding x_def using as by (simp only: mult.assoc)
  have "x / s = of_int m * a"
    unfolding xs using s by simp
  also have "\<dots> = of_int (m * 2 ^ nat (52 - j))"
    by (simp only: a of_int_mult)
  finally have r: "rne (x / s) = m * 2 ^ nat (52 - j)"
    by (simp only: rne_of_int)
  have x0: "x \<noteq> 0" using m0 by (simp add: x_def)
  have b: "binade x = j + k"
    unfolding x_def j_def using binade_scale [OF m0] .
  have "round53 x = of_int (rne (x / s)) * s"
    using x0 by (simp only: round53_def b s_def if_False)
  also have "\<dots> = (of_int m * a) * s"
    by (simp only: r of_int_mult a)
  also have "\<dots> = x" by (simp only: xs)
  finally show ?thesis by (simp only: x_def)
qed

lemma round53_of_int: "\<bar>m\<bar> < 2 ^ 53 \<Longrightarrow> round53 (of_int m) = of_int m"
  using round53_exact [of m 0] by simp

lemma round53_numeral [simp]:
  "numeral n < (2 ^ 53 :: int) \<Longrightarrow> round53 (numeral n) = numeral n"
  using round53_of_int [of "numeral n"] by simp

lemma round53_neg_numeral [simp]:
  "numeral n < (2 ^ 53 :: int) \<Longrightarrow> round53 (- numeral n) = - numeral n"
  using round53_of_int [of "- numeral n"] by simp

lemma round53_one [simp]: "round53 1 = 1"
  using round53_of_int [of 1] by simp

lemma round53_eval:
  assumes "2 powi k \<le> \<bar>x\<bar>" and "\<bar>x\<bar> < 2 powi (k + 1)"
  shows "round53 x = of_int (rne (x / 2 powi (k - 52))) * 2 powi (k - 52)"
proof -
  have b: "binade x = k" using assms by (rule binade_eqI)
  have "(0::real) < 2 powi k" by simp
  with assms(1) have "0 < \<bar>x\<bar>" by linarith
  then have "x \<noteq> 0" by simp
  with b show ?thesis by (simp add: round53_def)
qed

lemma round53_half: "round53 (1425 / 2) = 1425 / 2"
  using round53_exact [of 1425 "- 1"] by simp



section \<open>Column and frame lemmas\<close>

lemma length_shift [simp]: "length (shift k xs) = length xs"
  by (simp add: shift_def)

lemma nth_shift: "i < length xs \<Longrightarrow> shift k xs ! i = (if i < k then NaN else xs ! (i - k))"
  by (simp add: shift_def nth_append)


lemma rolling_window_current:
  assumes "i < length xs" and "rolling_window w i xs \<noteq> []"
  shows "xs ! i \<in> set (rolling_window w i xs)"
proof -
  let ?n = "Suc i - w" and ?ys = "take (Suc i) xs"
  have len: "length ?ys = Suc i"
    using assms(1) by simp
  have "?n < Suc i"
    using assms(2) len by (simp add: rolling_window_def)
  then have "i - ?n < length (drop ?n ?ys)" and "drop ?n ?ys ! (i - ?n) = xs ! i"
    using len by simp_all
  then show ?thesis
    unfolding rolling_window_def by (metis nth_mem)
qed

lemma list_max_ge: "x \<in> set w \<Longrightarrow> x \<le> list_max w"
  by (simp add: list_max_def)

lemma fgt_NaN [simp]: "\<not> fgt x NaN"
  by (cases x) (simp_all add: fgt_def)

lemma fgt_flt_exclusive: "fgt x y \<Longrightarrow> \<not> flt x y"
  unfolding fgt_def by (cases x; cases y) simp_all

lemma length_loc_set_enter [simp]: "length (loc_set_enter sel v tag df) = length df"
  by (simp add: loc_set_enter_def)

lemma length_loc_set_exit [simp]: "length (loc_set_exit sel v tag df) = length df"
  by (simp add: loc_set_exit_def)

lemma nth_loc_set_enter:
  "i < length df \<Longrightarrow> loc_set_enter sel v tag df ! i =
     (if sel ! i then (df ! i)\<lparr>enter_long := Some v, enter_tag := Some tag\<rparr> else df ! i)"
  by (simp add: loc_set_enter_def)

lemma nth_loc_set_exit:
  "i < length df \<Longrightarrow> loc_set_exit sel v tag df ! i =
     (if sel ! i then (df ! i)\<lparr>exit_long := Some v, exit_tag := Some tag\<rparr> else df ! i)"
  by (simp add: loc_set_exit_def)

lemma loc_set_enter_map:
  "loc_set_enter (map f df) v tag df =
     map (\<lambda>r. if f r then r\<lparr>enter_long := Some v, enter_tag := Some tag\<rparr> else r) df"
  by (rule nth_equalityI) (simp_all add: nth_loc_set_enter)

lemma nth_logical_and_reduce:
  "i < n \<Longrightarrow> logical_and_reduce n conds ! i = list_all (\<lambda>c. c ! i) conds"
  by (simp add: logical_and_reduce_def)

lemma nth_reindex_nearest:
  "i < n \<Longrightarrow> reindex_nearest n htf ! i = htf ! min i (length htf - 1)"
  by (simp add: reindex_nearest_def)

lemma length_reindex_nearest [simp]: "length (reindex_nearest n htf) = n"
  by (simp add: reindex_nearest_def)

lemma last_frame_index: "df \<noteq> [] \<Longrightarrow> last (frame_index df) = int (length df) - 1"
  by (cases df rule: rev_cases) (simp_all add: frame_index_def)

section \<open>Rows of the analysed frame\<close>

lemma populate_indicators_length:
  "populate_indicators P X df = Inr rows \<Longrightarrow> length rows = length df"
  by (auto simp: populate_indicators_def Let_def split: sum.splits prod.splits)


lemma populate_indicators_candle:
  assumes "populate_indicators P X df = Inr rows" and "i < length df"
  shows "close (rows ! i) = close (df ! i)" "high (rows ! i) = high (df ! i)"
    "volume (rows ! i) = volume (df ! i)" "enter_long (rows ! i) = None"
    "exit_long (rows ! i) = None"
  using assms
  by (auto simp: populate_indicators_def Let_def split: sum.splits prod.splits)

lemma populate_indicators_swing_high:
  assumes "populate_indicators P X df = Inr rows" and "i < length df"
  shows "swing_high (rows ! i) = NaN \<or>
     (rolling_window (swing_window P) i (map high df) \<noteq> [] \<and>
      swing_high (rows ! i) = Fin (list_max (rolling_window (swing_window P) i (map high df))))"
  using assms
  by (auto simp: populate_indicators_def calculate_swing_def rolling_def Let_def
      split: sum.splits prod.splits if_splits)

lemma close_not_above_swing_high:
  assumes "\<forall>c\<in>set cs. close c \<le> high c"
    and "populate_indicators P X cs = Inr rows" and "i < length cs"
  shows "\<not> fgt (Fin (close (rows ! i))) (swing_high (rows ! i))"
proof -
  let ?w = "rolling_window (swing_window P) i (map high cs)"
  from populate_indicators_swing_high [OF assms(2,3)]
  show ?thesis
  proof
    assume "swing_high (rows ! i) = NaN"
    then show ?thesis by simp
  next
    assume w: "?w \<noteq> [] \<and> swing_high (rows ! i) = Fin (list_max ?w)"
    then have "map high cs ! i \<in> set ?w"
      using rolling_window_current [of i "map high cs"] assms(3) by simp
    then have "high (cs ! i) \<le> list_max ?w"
      using list_max_ge assms(3) by fastforce
    moreover have "close (cs ! i) \<le> high (cs ! i)"
      using assms(1,3) by simp
    ultimately show ?thesis
      using w populate_indicators_candle(1) [OF assms(2,3)] by (simp add: fgt_def)
  qed
qed

section \<open>The base paths of the signal functions\<close>

lemma exit_base:
  assumes "\<not> manual_applies self p ''SELL''"
  shows "snd (populate_exit_trend self df p) = self"
    and "length (fst (populate_exit_trend self df p)) = length df"
    and "i < length df \<Longrightarrow> fst (populate_exit_trend self df p) ! i =
      (if exit_technical (parameters self) (df ! i) \<and> volume (df ! i) > 0
       then (df ! i)\<lparr>exit_long := Some 1, exit_tag := Some ''macd_ema_exit''\<rparr> else df ! i)"
  using assms
  by (simp_all add: populate_exit_trend_def Let_def nth_loc_set_exit nth_logical_and_reduce)

lemma entry_base:
  assumes "\<not> manual_applies self p ''BUY''"
    and "map_of timeframe_hierarchy (timeframe self) = Some level"
    and "htf = get_pair_dataframe (dp self) p level"
  shows "\<exists>df'. populate_entry_trend self df p =
        Inr (df', self, if htf = [] then [no_data_message p level] else []) \<and>
      length df' = length df \<and>
      (\<forall>i<length df. df' ! i =
        (if entry_technical (parameters self) (df ! i) \<and>
            (htf = [] \<or> (0 < i \<and> close (df ! i) < close (htf ! min (i - 1) (length htf - 1))))
         then (df ! i)\<lparr>enter_long := Some 1, enter_tag := Some ''multi_timeframe_cross''\<rparr>
         else df ! i))"
proof (cases "htf = []")
  case True
  with assms show ?thesis
    by (simp add: populate_entry_trend_def Let_def nth_loc_set_enter nth_logical_and_reduce)
next
  case False
  let ?c0 = "map (entry_technical (parameters self)) df"
  let ?c1 = "map2 flt (map (\<lambda>r. Fin (close r)) df)
        (shift 1 (map (\<lambda>c. Fin (close c)) (reindex_nearest (length df) htf)))"
  let ?df' = "loc_set_enter (logical_and_reduce (length df) [?c0, ?c1]) 1
        ''multi_timeframe_cross'' df"
  have res: "populate_entry_trend self df p = Inr (?df', self, [])"
    using False assms by (simp add: populate_entry_trend_def Let_def)
  have cond: "?c1 ! i = (0 < i \<and> close (df ! i) < close (htf ! min (i - 1) (length htf - 1)))"
    if "i < length df" for i
    using that by (simp add: nth_shift nth_reindex_nearest less_imp_diff_less)
  have "?df' ! i =
        (if entry_technical (parameters self) (df ! i) \<and>
            (htf = [] \<or> (0 < i \<and> close (df ! i) < close (htf ! min (i - 1) (length htf - 1))))
         then (df ! i)\<lparr>enter_long := Some 1, enter_tag := Some ''multi_timeframe_cross''\<rparr>
         else df ! i)" if "i < length df" for i
    using that False cond [OF that]
    by (simp only: nth_loc_set_enter nth_logical_and_reduce list.pred_inject nth_map) simp
  with res False show ?thesis by simp
qed

lemma entry_base_level:
  assumes "\<not> manual_applies self p ''BUY''" and "populate_entry_trend self df p = Inr res"
  shows "\<exists>level. map_of timeframe_hierarchy (timeframe self) = Some level"
proof (cases "map_of timeframe_hierarchy (timeframe self)")
  case None
  with assms show ?thesis
    by (simp add: populate_entry_trend_def)
next
  case (Some level)
  then show ?thesis by simp
qed

lemma entry_preserves:
  assumes "populate_entry_trend self df p = Inr (df1, self1, logs)"
  shows "length df1 = length df \<and>
    (\<forall>i<length df. df1 ! i = df ! i \<or>
       df1 ! i = (df ! i)\<lparr>enter_long := Some 1, enter_tag := Some ''trigger_buy''\<rparr> \<or>
       df1 ! i = (df ! i)\<lparr>enter_long := Some 1, enter_tag := Some ''multi_timeframe_cross''\<rparr>)"
proof (cases "manual_applies self p ''BUY''")
  case True
  then have "df1 = loc_set_enter (map (\<lambda>r. volume r > 0) df) 1 ''trigger_buy'' df"
    using assms by (simp add: populate_entry_trend_def)
  then show ?thesis
    by (simp add: nth_loc_set_enter)
next
  case False
  then obtain level where level: "map_of timeframe_hierarchy (timeframe self) = Some level"
    using assms entry_base_level by blast
  let ?htf = "get_pair_dataframe (dp self) p level"
  from entry_base [OF False level refl, of df]
  obtain df' where res: "populate_entry_trend self df p =
        Inr (df', self, if ?htf = [] then [no_data_message p level] else [])"
    and len: "length df' = length df"
    and rows: "\<forall>i<length df. df' ! i =
        (if entry_technical (parameters self) (df ! i) \<and>
            (?htf = [] \<or> (0 < i \<and> close (df ! i) < close (?htf ! min (i - 1) (length ?htf - 1))))
         then (df ! i)\<lparr>enter_long := Some 1, enter_tag := Some ''multi_timeframe_cross''\<rparr>
         else df ! i)"
    by blast
  from res assms have "df1 = df'" by simp
  with len rows show ?thesis by simp
qed

section \<open>Writes of the position adjustment\<close>

lemma confirm_dca_unavailable:
  "unavailable store \<Longrightarrow> confirm_dca P store current_rate trade = Inl HostError"
  by (simp add: confirm_dca_def set_mk_sl_def set_custom_data_SL_def Let_def)

lemma confirm_dca_available:
  "\<not> unavailable store \<Longrightarrow> confirm_dca P store current_rate trade =
     Inr (store\<lparr>sl_data := (sl_data store)
                  (trade_id trade \<mapsto> round53 (current_rate * new_sl_coef P)),
                dca_data := (dca_data store)
                  (trade_id trade \<mapsto> get_dca_list store trade @ [current_rate])\<rparr>)"
  by (simp add: confirm_dca_def set_mk_sl_def set_custom_data_SL_def set_custom_data_DCA_def
      Let_def)

section \<open>The example frames, evaluated\<close>




lemma float_gates:
  "round53 (199 / 200) = 8962163258467287 / 9007199254740992"
  "round53 (4257027547771961325 / 4503599627370496) = 3781 / 4"
  "round53 (510843305732635359 / 562949953421312) = 7981926652072427 / 8796093022208"
  "round53 (1425 / 2) = 1425 / 2"
    apply (subst round53_eval [where k = "- 1"]; simp add: power_int_minus rne_def)
   apply (subst round53_eval [where k = 9]; simp add: power_int_minus rne_def)
  apply (subst round53_eval [where k = 9]; simp add: power_int_minus rne_def)
  apply (rule round53_half)
  done

lemma dip_ttf_low: "round53 (- (1000 / 3)) < - 200" "round53 (- (1000 / 3)) < - 100"
proof -
  have "round53 (- (1000 / 3)) \<le> round53 (- 201)"
    by (rule round53_mono) simp
  then show "round53 (- (1000 / 3)) < - 200" "round53 (- (1000 / 3)) < - 100"
    by simp_all
qed

lemmas eval_defs = populate_indicators_def calculate_swing_def calculate_pivots_def rolling_def
      rolling_window_def list_max_def list_min_def cummax_def shift_def fsub_def fgt_def
      default_params_def short_params_def no_extern_def flat_candle_def upt_conv_Cons Let_def

lemma dip_rows_eval:
  "populate_indicators short_params no_extern dip_frame = Inr dip_rows \<and>
   length dip_rows = 4 \<and>
   close (dip_rows ! 3) = 995 \<and> volume (dip_rows ! 3) = 8 \<and>
   resistance_signal (dip_rows ! 3) \<and>
   macd (dip_rows ! 3) = NaN \<and> macdsignal (dip_rows ! 3) = NaN \<and>
   ema_short (dip_rows ! 3) = NaN \<and> ema_long (dip_rows ! 3) = NaN \<and>
   swing_high (dip_rows ! 3) = Fin 1000 \<and>
   buyPower (dip_rows ! 3) = Fin (- 5) \<and> sellPower (dip_rows ! 3) = Fin 20 \<and>
   ttf (dip_rows ! 3) = Fin (round53 (- 1000 / 3)) \<and>
   enter_long (dip_rows ! 3) = None \<and> exit_long (dip_rows ! 3) = None \<and>
   volume (dip_rows ! 0) = 10 \<and> volume (dip_rows ! 1) = 0 \<and> volume (dip_rows ! 2) = 30 \<and>
   enter_long (dip_rows ! 0) = None \<and> enter_long (dip_rows ! 1) = None \<and>
   enter_long (dip_rows ! 2) = None \<and>
   \<not> resistance_signal (dip_rows ! 0) \<and> ttf (dip_rows ! 0) = NaN \<and>
   macd (dip_rows ! 0) = NaN \<and> ema_short (dip_rows ! 0) = NaN"
proof -
  have "\<exists>rows. populate_indicators short_params no_extern dip_frame = Inr rows \<and>
   length rows = 4 \<and>
   close (rows ! 3) = 995 \<and> volume (rows ! 3) = 8 \<and>
   resistance_signal (rows ! 3) \<and>
   macd (rows ! 3) = NaN \<and> macdsignal (rows ! 3) = NaN \<and>
   ema_short (rows ! 3) = NaN \<and> ema_long (rows ! 3) = NaN \<and>
   swing_high (rows ! 3) = Fin 1000 \<and>
   buyPower (rows ! 3) = Fin (- 5) \<and> sellPower (rows ! 3) = Fin 20 \<and>
   ttf (rows ! 3) = Fin (round53 (- 1000 / 3)) \<and>
   enter_long (rows ! 3) = None \<and> exit_long (rows ! 3) = None \<and>
   volume (rows ! 0) = 10 \<and> volume (rows ! 1) = 0 \<and> volume (rows ! 2) = 30 \<and>
   enter_long (rows ! 0) = None \<and> enter_long (rows ! 1) = None \<and>
   enter_long (rows ! 2) = None \<and>
   \<not> resistance_signal (rows ! 0) \<and> ttf (rows ! 0) = NaN \<and>
   macd (rows ! 0) = NaN \<and> ema_short (rows ! 0) = NaN"
    by (simp add: eval_defs dip_frame_def)
  then show ?thesis
    unfolding dip_rows_def by (elim exE conjE) simp
qed



lemma dip_last:
  "dip_rows \<noteq> [] \<and> last (frame_index dip_rows) = 3 \<and> resistance_signal (last dip_rows)"
proof -
  have len: "length dip_rows = 4"
    using dip_rows_eval by simp
  then have ne: "dip_rows \<noteq> []" by auto
  then have "last dip_rows = dip_rows ! 3"
    using len by (simp add: last_conv_nth)
  with ne len dip_rows_eval show ?thesis
    by (simp add: last_frame_index)
qed

lemma idle_strategy_simps:
  "parameters idle_strategy = short_params" "timeframe idle_strategy = ''5m''"
  "commands idle_strategy = []" "dp idle_strategy = host_dp"
  "map_of timeframe_hierarchy ''5m'' = Some ''15m''"
  "get_pair_dataframe host_dp ''BTC/USD'' ''15m'' = [flat_candle 1200 50]"
  "get_pair_dataframe host_dp ''LTC/USD'' ''15m'' = [flat_candle 900 50]"
  "get_pair_dataframe host_dp ''ETH/USD'' ''15m'' = []"
  "get_analyzed_dataframe host_dp ''BTC/USD'' ''5m'' = dip_rows"
  "upper_trigger_level short_params = 100" "lower_trigger_level short_params = - 100"
  "dca_candles_modulo short_params = 3" "dca_threshold short_params = 0.01"
  "new_sl_coef short_params = 0.75"
  by (simp_all add: idle_strategy_def host_dp_def timeframe_hierarchy_def short_params_def
      default_params_def)

lemma idle_not_manual: "\<not> manual_applies idle_strategy p action"
  by (simp add: manual_applies_def idle_strategy_simps)

lemma dip_row_3_technical: "entry_technical short_params (dip_rows ! 3)"
  using dip_rows_eval by (simp add: entry_technical_def)

lemma dip_signals:
  "populate_entry_trend idle_strategy dip_rows ''BTC/USD'' = Inr (dip_entered, idle_strategy, []) \<and>
   populate_exit_trend idle_strategy dip_entered ''BTC/USD'' = (dip_exited, idle_strategy) \<and>
   enter_long (dip_exited ! 3) = Some 1 \<and>
   enter_tag (dip_exited ! 3) = Some ''multi_timeframe_cross'' \<and>
   exit_long (dip_exited ! 3) = Some 1 \<and>
   exit_tag (dip_exited ! 3) = Some ''macd_ema_exit'' \<and>
   enter_long (dip_entered ! 0) = None \<and>
   enter_tag (dip_entered ! 3) = Some ''multi_timeframe_cross''"
proof -
  from entry_base [OF idle_not_manual, where level = "''15m''" and p = "''BTC/USD''"
      and df = dip_rows, OF _ refl]
  obtain df' where res: "populate_entry_trend idle_strategy dip_rows ''BTC/USD''
        = Inr (df', idle_strategy, [])"
    and len: "length df' = 4"
    and rows: "\<forall>i<4. df' ! i =
        (if entry_technical short_params (dip_rows ! i) \<and>
            (0 < i \<and> close (dip_rows ! i) < close ([flat_candle 1200 50] ! min (i - 1) 0))
         then (dip_rows ! i)\<lparr>enter_long := Some 1, enter_tag := Some ''multi_timeframe_cross''\<rparr>
         else dip_rows ! i)"
    using dip_rows_eval by (auto simp: idle_strategy_simps)
  have entered: "dip_entered = df'"
    by (simp add: dip_entered_def res)
  have r3: "df' ! 3 =
      (dip_rows ! 3)\<lparr>enter_long := Some 1, enter_tag := Some ''multi_timeframe_cross''\<rparr>"
    using rows dip_rows_eval by (simp add: entry_technical_def flat_candle_def)
  have r0: "df' ! 0 = dip_rows ! 0"
    using rows by simp
  have exited: "populate_exit_trend idle_strategy dip_entered ''BTC/USD''
      = (dip_exited, idle_strategy)"
    using exit_base(1) [OF idle_not_manual, where p = "''BTC/USD''" and df = dip_entered]
    by (simp add: dip_exited_def prod_eq_iff)
  have "dip_exited ! 3 =
      (df' ! 3)\<lparr>exit_long := Some 1, exit_tag := Some ''macd_ema_exit''\<rparr>"
    using exit_base(3) [OF idle_not_manual, where i = 3 and df = df' and p = "''BTC/USD''"] len r3 dip_rows_eval
    by (simp add: dip_exited_def entered exit_technical_def idle_strategy_simps dip_ttf_low)
  with res exited entered r3 r0 dip_rows_eval show ?thesis
    by simp
qed

lemma buried_base:
  "\<not> manual_applies buried_strategy ''BTC/USD'' ''BUY'' \<and>
   populate_entry_trend buried_strategy dip_rows ''BTC/USD''
     = Inr (buried_entered, buried_strategy, []) \<and>
   enter_long (buried_entered ! 0) = None \<and>
   enter_tag (buried_entered ! 3) = Some ''multi_timeframe_cross''"
proof -
  have base: "\<not> manual_applies buried_strategy ''BTC/USD'' ''BUY''"
    by (simp add: manual_applies_def buried_strategy_def)
  have cfg: "parameters buried_strategy = short_params" "timeframe buried_strategy = ''5m''"
    "dp buried_strategy = host_dp"
    by (simp_all add: buried_strategy_def idle_strategy_def)
  from entry_base [OF base, where level = "''15m''" and df = dip_rows, OF _ refl]
  obtain df' where res: "populate_entry_trend buried_strategy dip_rows ''BTC/USD''
        = Inr (df', buried_strategy, [])"
    and rows: "\<forall>i<4. df' ! i =
        (if entry_technical short_params (dip_rows ! i) \<and>
            (0 < i \<and> close (dip_rows ! i) < close ([flat_candle 1200 50] ! min (i - 1) 0))
         then (dip_rows ! i)\<lparr>enter_long := Some 1, enter_tag := Some ''multi_timeframe_cross''\<rparr>
         else dip_rows ! i)"
    using dip_rows_eval by (auto simp: idle_strategy_simps cfg)
  have "buried_entered = df'"
    by (simp add: buried_entered_def res)
  moreover have "df' ! 3 =
      (dip_rows ! 3)\<lparr>enter_long := Some 1, enter_tag := Some ''multi_timeframe_cross''\<rparr>"
    using rows dip_rows_eval dip_row_3_technical by (simp add: flat_candle_def)
  moreover have "df' ! 0 = dip_rows ! 0"
    using rows by simp
  ultimately show ?thesis
    using base res dip_rows_eval by simp
qed

lemma manual_base:
  "populate_entry_trend buy_strategy dip_rows ''BTC/USD''
     = Inr (manual_entered,
            buy_strategy\<lparr>commands := [\<lparr>pair = ''ETH/USD'', command = ''SELL''\<rparr>]\<rparr>, []) \<and>
   enter_long (manual_entered ! 1) = None \<and>
   enter_tag (manual_entered ! 3) = Some ''trigger_buy''"
proof -
  have applies: "manual_applies buy_strategy ''BTC/USD'' ''BUY''"
    by (simp add: manual_applies_def buy_strategy_def)
  have queue: "drop_pair (pair (last (commands buy_strategy))) (commands buy_strategy)
      = [\<lparr>pair = ''ETH/USD'', command = ''SELL''\<rparr>]"
    by (simp add: drop_pair_def buy_strategy_def)
  have res: "populate_entry_trend buy_strategy dip_rows ''BTC/USD''
      = Inr (loc_set_enter (map (\<lambda>r. volume r > 0) dip_rows) 1 ''trigger_buy'' dip_rows,
             buy_strategy\<lparr>commands := [\<lparr>pair = ''ETH/USD'', command = ''SELL''\<rparr>]\<rparr>, [])"
    using applies queue by (simp add: populate_entry_trend_def)
  let ?m = "loc_set_enter (map (\<lambda>r. volume r > 0) dip_rows) 1 ''trigger_buy'' dip_rows"
  have entered: "manual_entered = ?m"
    by (simp add: manual_entered_def res)
  have "enter_long (?m ! 1) = None" and "enter_tag (?m ! 3) = Some ''trigger_buy''"
    using dip_rows_eval by (simp_all add: nth_loc_set_enter)
  then show ?thesis
    unfolding entered using res by simp
qed


lemma btc_trade_simps:
  "trade_id btc_trade = 40" "trade_pair btc_trade = ''BTC/USD''" "stake_amount btc_trade = 25"
  "get_dca_list empty_store btc_trade = []"
  "get_dca_list first_dca_store btc_trade = [950]"
  "get_dca_list edge_store btc_trade = [912]"
  "sl_data empty_store = Map.empty" "dca_data empty_store = Map.empty"
  "\<not> unavailable empty_store" "\<not> unavailable first_dca_store" "\<not> unavailable edge_store"
  by (simp_all add: btc_trade_def get_dca_list_def first_value_def get_custom_data_DCA_def
      empty_store_def first_dca_store_def edge_store_def)

section \<open>Trend trigger factor\<close>




section \<open>Entry and exit on the same row\<close>

text \<open>
  C2 (amended).  When no queued manual command applies, a row of a frame with fresh
  signal columns is assigned both \<open>enter_long = 1\<close> by \<open>populate_entry_trend\<close> and
  \<open>exit_long = 1\<close> by \<open>populate_exit_trend\<close> only if its resistance signal is set, or
  its \<open>ttf\<close> is above the upper trigger or below the lower trigger, or its close is
  above the swing high: the MACD and EMA rule of the entry and the MACD and EMA rule of
  the exit never mark the same row.
\<close>

theorem entry_exit_overlap:
  assumes "\<not> manual_applies self p ''BUY''"
    and "populate_entry_trend self df p = Inr (df1, self1, logs)"
    and "\<not> manual_applies self1 p ''SELL''"
    and "populate_exit_trend self1 df1 p = (df2, self2)"
    and "i < length df" and "enter_long (df ! i) = None" and "exit_long (df ! i) = None"
    and "enter_long (df2 ! i) = Some 1" and "exit_long (df2 ! i) = Some 1"
  shows "resistance_signal (df ! i) \<or>
    fgt (ttf (df ! i)) (Fin (of_int (upper_trigger_level (parameters self)))) \<or>
    flt (ttf (df ! i)) (Fin (of_int (lower_trigger_level (parameters self)))) \<or>
    fgt (Fin (close (df ! i))) (swing_high (df ! i))"
proof -
  obtain level where level: "map_of timeframe_hierarchy (timeframe self) = Some level"
    using assms(1,2) entry_base_level by blast
  from entry_base [OF assms(1) level refl, of df] assms(2)
  have same: "self1 = self" and len: "length df1 = length df"
    and row1: "df1 ! i =
        (if entry_technical (parameters self) (df ! i) \<and>
            (get_pair_dataframe (dp self) p level = [] \<or>
             (0 < i \<and> close (df ! i) < close (get_pair_dataframe (dp self) p level !
                min (i - 1) (length (get_pair_dataframe (dp self) p level) - 1))))
         then (df ! i)\<lparr>enter_long := Some 1, enter_tag := Some ''multi_timeframe_cross''\<rparr>
         else df ! i)"
    using assms(5) by auto
  have row2: "df2 ! i =
      (if exit_technical (parameters self) (df1 ! i) \<and> volume (df1 ! i) > 0
       then (df1 ! i)\<lparr>exit_long := Some 1, exit_tag := Some ''macd_ema_exit''\<rparr> else df1 ! i)"
    using exit_base(3) [OF assms(3), of i df1] assms(4,5) len same by simp
  have entered: "entry_technical (parameters self) (df ! i)"
    using assms(6,8) row1 row2 by (auto split: if_splits)
  have exited: "exit_technical (parameters self) (df ! i)"
    using assms(7,9) row1 row2 by (auto simp: exit_technical_def split: if_splits)
  from entered exited show ?thesis
    unfolding entry_technical_def exit_technical_def
    using fgt_flt_exclusive [of "macd (df ! i)" "macdsignal (df ! i)"] by blast
qed

text \<open>
  The last row of the dip frame gets both signals, and its resistance signal is set.
\<close>

theorem entry_exit_overlap_witness:
  "enter_long (dip_exited ! 3) = Some 1 \<and> exit_long (dip_exited ! 3) = Some 1 \<and>
   (resistance_signal (dip_rows ! 3) \<or>
    fgt (ttf (dip_rows ! 3)) (Fin (of_int (upper_trigger_level (parameters idle_strategy)))) \<or>
    flt (ttf (dip_rows ! 3)) (Fin (of_int (lower_trigger_level (parameters idle_strategy)))) \<or>
    fgt (Fin (close (dip_rows ! 3))) (swing_high (dip_rows ! 3)))"
  using entry_exit_overlap [of idle_strategy "''BTC/USD''" dip_rows dip_entered idle_strategy
      "[]" dip_exited idle_strategy 3]
    dip_signals dip_rows_eval idle_not_manual
  by simp

text \<open>
  C2 as stated fails on the dip frame: no manual command is queued, the last row breaks
  above its first resistance (995 over 990) on positive volume, which enters, and its
  \<open>ttf\<close> of -1000/3 is below the lower trigger of -100, which exits.
\<close>

theorem entry_exit_overlap_counterexample:
  "populate_indicators short_params no_extern dip_frame = Inr dip_rows \<and>
   \<not> manual_applies idle_strategy ''BTC/USD'' ''BUY'' \<and>
   \<not> manual_applies idle_strategy ''BTC/USD'' ''SELL'' \<and>
   populate_entry_trend idle_strategy dip_rows ''BTC/USD'' = Inr (dip_entered, idle_strategy, []) \<and>
   populate_exit_trend idle_strategy dip_entered ''BTC/USD'' = (dip_exited, idle_strategy) \<and>
   enter_long (dip_rows ! 3) = None \<and> exit_long (dip_rows ! 3) = None \<and>
   enter_long (dip_exited ! 3) = Some 1 \<and>
   enter_tag (dip_exited ! 3) = Some ''multi_timeframe_cross'' \<and>
   exit_long (dip_exited ! 3) = Some 1 \<and>
   exit_tag (dip_exited ! 3) = Some ''macd_ema_exit''"
  using dip_signals dip_rows_eval idle_not_manual by simp

section \<open>Manual buy command\<close>

text \<open>
  C3 (amended).  If the last command of the queue is a \<open>BUY\<close> for the pair under
  evaluation, \<open>populate_entry_trend\<close> sets \<open>enter_long = 1\<close> with the tag
  \<open>trigger_buy\<close> on every row of positive volume, leaves the other rows as they are,
  and removes every command of that pair from the queue, so that the command does not
  apply again on the next evaluation.
\<close>

theorem manual_buy:
  assumes "commands self \<noteq> []" and "pair (last (commands self)) = p"
    and "command (last (commands self)) = ''BUY''"
  shows "populate_entry_trend self df p =
      Inr (map (\<lambda>r. if volume r > 0
                    then r\<lparr>enter_long := Some 1, enter_tag := Some ''trigger_buy''\<rparr> else r) df,
           self\<lparr>commands := filter (\<lambda>s. pair s \<noteq> p) (commands self)\<rparr>, []) \<and>
    (\<forall>s \<in> set (filter (\<lambda>s. pair s \<noteq> p) (commands self)). pair s \<noteq> p) \<and>
    \<not> manual_applies (self\<lparr>commands := filter (\<lambda>s. pair s \<noteq> p) (commands self)\<rparr>) p ''BUY''"
proof -
  let ?cs = "filter (\<lambda>s. pair s \<noteq> p) (commands self)"
  have applies: "manual_applies self p ''BUY''"
    using assms by (simp add: manual_applies_def)
  have res: "populate_entry_trend self df p =
      Inr (map (\<lambda>r. if volume r > 0
                    then r\<lparr>enter_long := Some 1, enter_tag := Some ''trigger_buy''\<rparr> else r) df,
           self\<lparr>commands := ?cs\<rparr>, [])"
    unfolding populate_entry_trend_def drop_pair_def loc_set_enter_map
    using applies assms(2) by simp
  have gone: "\<forall>s \<in> set ?cs. pair s \<noteq> p"
    by simp
  have "pair (last ?cs) \<noteq> p" if "?cs \<noteq> []"
    using last_in_set [OF that] gone by blast
  then have "\<not> manual_applies (self\<lparr>commands := ?cs\<rparr>) p ''BUY''"
    unfolding manual_applies_def by (cases "?cs = []") simp_all
  with res gone show ?thesis by blast
qed

text \<open>
  With the queue \<open>ETH/USD SELL, BTC/USD SELL, BTC/USD BUY\<close> the evaluation of
  \<open>BTC/USD\<close> leaves \<open>ETH/USD SELL\<close> alone in the queue.
\<close>

theorem manual_buy_witness:
  "commands buy_strategy \<noteq> [] \<and> pair (last (commands buy_strategy)) = ''BTC/USD'' \<and>
   command (last (commands buy_strategy)) = ''BUY'' \<and>
   populate_entry_trend buy_strategy dip_rows ''BTC/USD'' =
     Inr (map (\<lambda>r. if volume r > 0
                    then r\<lparr>enter_long := Some 1, enter_tag := Some ''trigger_buy''\<rparr> else r)
            dip_rows,
          buy_strategy\<lparr>commands := [\<lparr>pair = ''ETH/USD'', command = ''SELL''\<rparr>]\<rparr>, []) \<and>
   \<not> manual_applies (buy_strategy\<lparr>commands := [\<lparr>pair = ''ETH/USD'', command = ''SELL''\<rparr>]\<rparr>)
       ''BTC/USD'' ''BUY''"
proof -
  have queue: "commands buy_strategy \<noteq> []" "pair (last (commands buy_strategy)) = ''BTC/USD''"
    "command (last (commands buy_strategy)) = ''BUY''"
    "filter (\<lambda>s. pair s \<noteq> ''BTC/USD'') (commands buy_strategy)
       = [\<lparr>pair = ''ETH/USD'', command = ''SELL''\<rparr>]"
    by (simp_all add: buy_strategy_def)
  from manual_buy [OF queue(1-3), of dip_rows] queue show ?thesis
    by simp
qed

text \<open>
  C3 as stated fails twice.  A \<open>BUY\<close> for \<open>BTC/USD\<close> that is queued before a command
  of another pair is not acted on: the frame gets the signals of the base path and the
  queue keeps the command.  And when the \<open>BUY\<close> is the last command, the candle
  without trades (row 1 of the dip frame) gets no entry signal.
\<close>

theorem manual_buy_counterexample:
  "commands buried_strategy =
     [\<lparr>pair = ''BTC/USD'', command = ''BUY''\<rparr>, \<lparr>pair = ''ETH/USD'', command = ''SELL''\<rparr>] \<and>
   populate_entry_trend buried_strategy dip_rows ''BTC/USD''
     = Inr (buried_entered, buried_strategy, []) \<and>
   enter_long (buried_entered ! 0) = None \<and>
   enter_tag (buried_entered ! 3) = Some ''multi_timeframe_cross'' \<and>
   command (last (commands buy_strategy)) = ''BUY'' \<and>
   pair (last (commands buy_strategy)) = ''BTC/USD'' \<and>
   populate_entry_trend buy_strategy dip_rows ''BTC/USD''
     = Inr (manual_entered,
            buy_strategy\<lparr>commands := [\<lparr>pair = ''ETH/USD'', command = ''SELL''\<rparr>]\<rparr>, []) \<and>
   volume (dip_rows ! 1) = 0 \<and> enter_long (manual_entered ! 1) = None"
  using buried_base manual_base dip_rows_eval
  by (simp add: buried_strategy_def buy_strategy_def)

section \<open>Exit confirmation gate\<close>

text \<open>
  C4.  \<open>confirm_trade_exit\<close> approves exactly when the reason mentions the default exit
  tag and the profit ratio is at least 0.005, or it mentions trailing or roi and the
  profit ratio is at least 0.005, or it mentions force or trigger.  So the reason
  \<open>roi\<close> is approved at a profit ratio of 0.01 and rejected at 0.001, and every reason
  that contains \<open>force\<close> is approved.
\<close>

theorem confirm_trade_exit_iff:
  "(confirm_trade_exit trade rate exit_reason \<longleftrightarrow>
      (sublist ''macd_ema_exit'' exit_reason \<and> calc_profit_ratio trade rate \<ge> 0.005) \<or>
      ((sublist ''trailing'' exit_reason \<or> sublist ''roi'' exit_reason)
         \<and> calc_profit_ratio trade rate \<ge> 0.005) \<or>
      (sublist ''force'' exit_reason \<or> sublist ''trigger'' exit_reason)) \<and>
   (calc_profit_ratio trade rate1 = 0.01 \<longrightarrow> confirm_trade_exit trade rate1 ''roi'') \<and>
   (calc_profit_ratio trade rate2 = 0.001 \<longrightarrow> \<not> confirm_trade_exit trade rate2 ''roi'') \<and>
   (sublist ''force'' exit_reason \<longrightarrow> confirm_trade_exit trade rate exit_reason)"
proof -
  have roi: "sublist ''roi'' ''roi''" "\<not> sublist ''force'' ''roi''"
    "\<not> sublist ''trigger'' ''roi''"
    by (simp_all add: sublist_code)
  have gate: "confirm_trade_exit trade r reason \<longleftrightarrow>
      (sublist ''macd_ema_exit'' reason \<and> calc_profit_ratio trade r \<ge> 0.005) \<or>
      ((sublist ''trailing'' reason \<or> sublist ''roi'' reason)
         \<and> calc_profit_ratio trade r \<ge> 0.005) \<or>
      (sublist ''force'' reason \<or> sublist ''trigger'' reason)" for r reason
    unfolding confirm_trade_exit_def Let_def by auto
  have approve: "confirm_trade_exit trade rate1 ''roi''" if "calc_profit_ratio trade rate1 = 0.01"
    using that roi by (simp add: gate)
  have reject: "\<not> confirm_trade_exit trade rate2 ''roi''"
    if "calc_profit_ratio trade rate2 = 0.001"
    using that roi by (simp add: gate sublist_code)
  show ?thesis
    using gate [of rate exit_reason] approve reject by blast
qed

theorem confirm_trade_exit_iff_witness:
  "calc_profit_ratio btc_trade 1010 = 0.01 \<and> confirm_trade_exit btc_trade 1010 ''roi'' \<and>
   calc_profit_ratio btc_trade 1001 = 0.001 \<and> \<not> confirm_trade_exit btc_trade 1001 ''roi'' \<and>
   sublist ''force'' ''force_exit'' \<and> confirm_trade_exit btc_trade 500 ''force_exit''"
proof -
  have a: "calc_profit_ratio btc_trade 1010 = 0.01"
    by (simp add: btc_trade_def)
  have b: "calc_profit_ratio btc_trade 1001 = 0.001"
    by (simp add: btc_trade_def)
  have c: "sublist ''force'' ''force_exit''"
    by (simp add: sublist_code)
  from a b c confirm_trade_exit_iff [of btc_trade 500 "''force_exit''" 1010 1001]
  show ?thesis by blast
qed

section \<open>Approval of a position adjustment\<close>



section \<open>The profit threshold of a position adjustment\<close>

text \<open>
  C6.  If the current profit is not below the negated DCA threshold,
  \<open>adjust_trade_position\<close> returns \<open>None\<close>.  With a threshold of 0.01 and no earlier
  DCA, a profit of -0.005 is refused, and a profit of -0.02 passes: the result is then
  decided by the checks that follow (analysed frame, candle modulo, resistance signal).
\<close>

theorem adjust_trade_position_threshold:
  "(current_profit \<ge> - dca_threshold (parameters self) \<longrightarrow>
      adjust_trade_position self store trade current_rate current_profit = Inr (None, store)) \<and>
   (dca_threshold (parameters self) = 0.01 \<and> get_dca_list store trade = [] \<longrightarrow>
      adjust_trade_position self store trade current_rate (- 0.005) = Inr (None, store) \<and>
      adjust_trade_position self store trade current_rate (- 0.02) =
        (let dataframe = get_analyzed_dataframe (dp self) (trade_pair trade) (timeframe self)
         in if dataframe = [] then Inr (None, store)
            else if dca_candles_modulo (parameters self) = 0 then Inl ZeroDivisionError
            else if last (frame_index dataframe) mod dca_candles_modulo (parameters self) \<noteq> 0
              then Inr (None, store)
            else if resistance_signal (last dataframe) then
              (case confirm_dca (parameters self) store current_rate trade of
                 Inl e \<Rightarrow> Inl e
               | Inr store' \<Rightarrow> Inr (Some (stake_amount trade), store'))
            else Inr (None, store)))"
  by (simp add: adjust_trade_position_def Let_def)

theorem adjust_trade_position_threshold_witness:
  "dca_threshold (parameters idle_strategy) = 0.01 \<and> get_dca_list empty_store btc_trade = [] \<and>
   adjust_trade_position idle_strategy empty_store btc_trade 950 (- 0.01) = Inr (None, empty_store) \<and>
   adjust_trade_position idle_strategy empty_store btc_trade 950 (- 0.005) = Inr (None, empty_store) \<and>
   adjust_trade_position idle_strategy empty_store btc_trade 950 (- 0.02)
     = Inr (Some 25, first_dca_store)"
proof -
  have "confirm_dca short_params empty_store 950 btc_trade = Inr first_dca_store"
    by (simp add: confirm_dca_available btc_trade_simps idle_strategy_simps float_gates
        first_dca_store_def)
  with adjust_trade_position_threshold [where current_profit = "- 0.01"
      and self = idle_strategy and store = empty_store and trade = btc_trade
      and current_rate = 950]
    dip_last
  show ?thesis
    by (simp add: idle_strategy_simps btc_trade_simps)
qed

section \<open>The candle modulo of a position adjustment\<close>

text \<open>
  C7.  If the index of the last analysed candle is not a multiple of
  \<open>dca_candles_modulo\<close>, \<open>adjust_trade_position\<close> never approves, whatever the store,
  the rate and the profit: it returns \<open>None\<close> and leaves the store as it was.
\<close>

theorem adjust_trade_position_modulo:
  assumes "dataframe = get_analyzed_dataframe (dp self) (trade_pair trade) (timeframe self)"
    and "dataframe \<noteq> []"
    and "last (frame_index dataframe) mod dca_candles_modulo (parameters self) \<noteq> 0"
  shows "(\<forall>stake store'. adjust_trade_position self store trade current_rate current_profit
            \<noteq> Inr (Some stake, store')) \<and>
         (dca_candles_modulo (parameters self) \<noteq> 0 \<longrightarrow>
            adjust_trade_position self store trade current_rate current_profit
              = Inr (None, store))"
  using assms by (simp add: adjust_trade_position_def Let_def)

theorem adjust_trade_position_modulo_witness:
  "get_analyzed_dataframe (dp slow_strategy) (trade_pair btc_trade) (timeframe slow_strategy)
     = dip_rows \<and>
   dip_rows \<noteq> [] \<and> last (frame_index dip_rows) = 3 \<and>
   dca_candles_modulo (parameters slow_strategy) = 2 \<and>
   resistance_signal (last dip_rows) \<and>
   adjust_trade_position slow_strategy empty_store btc_trade 950 (- 0.05) = Inr (None, empty_store)"
proof -
  have cfg: "get_analyzed_dataframe (dp slow_strategy) (trade_pair btc_trade)
        (timeframe slow_strategy) = dip_rows"
    "dca_candles_modulo (parameters slow_strategy) = 2"
    by (simp_all add: slow_strategy_def idle_strategy_simps btc_trade_simps)
  have "last (frame_index dip_rows) mod dca_candles_modulo (parameters slow_strategy) \<noteq> 0"
    using dip_last cfg by simp
  from adjust_trade_position_modulo [OF cfg(1) [symmetric] _ this,
      where store = empty_store and current_rate = 950 and current_profit = "- 0.05"]
    dip_last cfg
  show ?thesis by simp
qed

section \<open>Higher-timeframe confirmation\<close>

text \<open>
  C8.  On the default path of \<open>populate_entry_trend\<close>, with \<open>level\<close> the coarser
  timeframe of the hierarchy: when the frame of that timeframe is not empty, a row gets
  the entry signal exactly when the technical conditions hold and its close is below the
  close of the preceding row of that frame (aligned to the rows by nearest index);
  when the frame is empty, the condition is skipped, the function logs that, and a row
  gets the entry signal exactly when the technical conditions hold.
\<close>

theorem entry_higher_timeframe:
  assumes "\<not> manual_applies self p ''BUY''"
    and "map_of timeframe_hierarchy (timeframe self) = Some level"
    and "htf = get_pair_dataframe (dp self) p level"
  shows "\<exists>df'. populate_entry_trend self df p =
        Inr (df', self, if htf = [] then [no_data_message p level] else []) \<and>
      length df' = length df \<and>
      (\<forall>i<length df. df' ! i =
        (if entry_technical (parameters self) (df ! i) \<and>
            (htf = [] \<or> (0 < i \<and> close (df ! i) < close (htf ! min (i - 1) (length htf - 1))))
         then (df ! i)\<lparr>enter_long := Some 1, enter_tag := Some ''multi_timeframe_cross''\<rparr>
         else df ! i))"
  using entry_base [OF assms] .

text \<open>
  The last row of the dip frame closes at 995: it is entered under an informative close
  of 1200, not entered under one of 900, and entered with a log record when the
  informative frame is empty.
\<close>

theorem entry_higher_timeframe_witness:
  "(\<exists>df'. populate_entry_trend idle_strategy dip_rows ''BTC/USD''
        = Inr (df', idle_strategy, []) \<and> enter_long (df' ! 3) = Some 1) \<and>
   (\<exists>df'. populate_entry_trend idle_strategy dip_rows ''LTC/USD''
        = Inr (df', idle_strategy, []) \<and> enter_long (df' ! 3) = None) \<and>
   (\<exists>df'. populate_entry_trend idle_strategy dip_rows ''ETH/USD''
        = Inr (df', idle_strategy, [no_data_message ''ETH/USD'' ''15m'']) \<and>
      enter_long (df' ! 3) = Some 1)"
proof -
  have level: "map_of timeframe_hierarchy (timeframe idle_strategy) = Some ''15m''"
    by (simp add: idle_strategy_simps)
  have row: "3 < length dip_rows" "entry_technical (parameters idle_strategy) (dip_rows ! 3)"
    "close (dip_rows ! 3) = 995" "enter_long (dip_rows ! 3) = None"
    using dip_rows_eval dip_row_3_technical by (simp_all add: idle_strategy_simps)
  have btc: "\<exists>df'. populate_entry_trend idle_strategy dip_rows ''BTC/USD''
        = Inr (df', idle_strategy, []) \<and> enter_long (df' ! 3) = Some 1"
    using entry_higher_timeframe [OF idle_not_manual level refl, where p = "''BTC/USD''"
        and df = dip_rows] row
    by (auto simp: idle_strategy_simps flat_candle_def)
  have ltc: "\<exists>df'. populate_entry_trend idle_strategy dip_rows ''LTC/USD''
        = Inr (df', idle_strategy, []) \<and> enter_long (df' ! 3) = None"
    using entry_higher_timeframe [OF idle_not_manual level refl, where p = "''LTC/USD''"
        and df = dip_rows] row
    by (auto simp: idle_strategy_simps flat_candle_def)
  have eth: "\<exists>df'. populate_entry_trend idle_strategy dip_rows ''ETH/USD''
        = Inr (df', idle_strategy, [no_data_message ''ETH/USD'' ''15m'']) \<and>
      enter_long (df' ! 3) = Some 1"
    using entry_higher_timeframe [OF idle_not_manual level refl, where p = "''ETH/USD''"
        and df = dip_rows] row
    by (auto simp: idle_strategy_simps)
  from btc ltc eth show ?thesis by blast
qed

section \<open>Custom stop-loss check\<close>

text \<open>
  C9.  \<open>custom_exit\<close> signals an exit exactly when the current rate is at or below the
  stop-loss that \<open>get_mk_sl\<close> finds, and signals nothing otherwise.  \<open>get_mk_sl\<close> returns
  the persisted stop-loss of the trade when there is one, and the trade's own stop-loss
  when nothing is persisted or the lookup raises.
\<close>

theorem custom_exit_iff:
  "(custom_exit store trade current_rate \<noteq> None \<longleftrightarrow> current_rate \<le> get_mk_sl store trade) \<and>
   custom_exit store trade current_rate =
     (if current_rate \<le> get_mk_sl store trade
      then Some (''custom_stop_loss_'', get_mk_sl store trade) else None) \<and>
   get_mk_sl store trade =
     (if unavailable store then stop_loss trade
      else case sl_data store (trade_id trade) of None \<Rightarrow> stop_loss trade | Some sl \<Rightarrow> sl)"
  by (simp add: custom_exit_def get_mk_sl_def first_value_def get_custom_data_SL_def Let_def
      split: option.splits)

theorem custom_exit_iff_witness:
  "custom_exit (empty_store\<lparr>sl_data := [40 \<mapsto> 950]\<rparr>) btc_trade 940
     = Some (''custom_stop_loss_'', 950) \<and>
   custom_exit empty_store btc_trade 940 = None \<and>
   custom_exit (empty_store\<lparr>sl_data := [40 \<mapsto> 950], unavailable := True\<rparr>) btc_trade 900
     = Some (''custom_stop_loss_'', 900)"
  using custom_exit_iff [of "empty_store\<lparr>sl_data := [40 \<mapsto> 950]\<rparr>" btc_trade 940]
    custom_exit_iff [of empty_store btc_trade 940]
    custom_exit_iff [of "empty_store\<lparr>sl_data := [40 \<mapsto> 950], unavailable := True\<rparr>"
      btc_trade 900]
  by (simp add: empty_store_def btc_trade_def)

section \<open>The swing-high disjunct of the exit rule\<close>

text \<open>
  C10.  On a candle series whose closes do not exceed their highs, no row of the analysed
  frame has its close above \<open>swing_high\<close> (the rolling maximum of the highs over a
  window that ends at the row, \<open>NaN\<close> until \<open>min_periods\<close> is reached).  So every row
  that the base path of \<open>populate_exit_trend\<close> marks with \<open>exit_long = 1\<close> satisfies
  the MACD and EMA condition or has its \<open>ttf\<close> below the lower trigger.
\<close>

theorem swing_high_exit_dead:
  assumes "\<forall>c\<in>set cs. close c \<le> high c"
    and "populate_indicators P X cs = Inr rows"
    and "populate_entry_trend self rows p = Inr (df1, self1, logs)"
    and "\<not> manual_applies self1 p ''SELL''"
    and "populate_exit_trend self1 df1 p = (df2, self2)"
    and "i < length cs"
  shows "\<not> fgt (Fin (close (rows ! i))) (swing_high (rows ! i)) \<and>
    (exit_long (df2 ! i) = Some 1 \<longrightarrow>
       (flt (macd (rows ! i)) (macdsignal (rows ! i)) \<and>
        flt (ema_short (rows ! i)) (ema_long (rows ! i))) \<or>
       flt (ttf (rows ! i)) (Fin (of_int (lower_trigger_level (parameters self1)))))"
proof -
  have len: "length rows = length cs"
    using populate_indicators_length [OF assms(2)] .
  have dead: "\<not> fgt (Fin (close (rows ! i))) (swing_high (rows ! i))"
    using close_not_above_swing_high [OF assms(1,2,6)] .
  have fresh: "exit_long (rows ! i) = None"
    using populate_indicators_candle(5) [OF assms(2,6)] .
  from entry_preserves [OF assms(3)] assms(6) len
  have row1: "df1 ! i = rows ! i \<or>
       df1 ! i = (rows ! i)\<lparr>enter_long := Some 1, enter_tag := Some ''trigger_buy''\<rparr> \<or>
       df1 ! i = (rows ! i)\<lparr>enter_long := Some 1, enter_tag := Some ''multi_timeframe_cross''\<rparr>"
    and len1: "length df1 = length cs"
    by simp_all
  from row1 have same: "exit_technical (parameters self1) (df1 ! i)
        = exit_technical (parameters self1) (rows ! i)"
    and fresh1: "exit_long (df1 ! i) = None"
    using fresh by (auto simp: exit_technical_def)
  have row2: "df2 ! i =
      (if exit_technical (parameters self1) (df1 ! i) \<and> volume (df1 ! i) > 0
       then (df1 ! i)\<lparr>exit_long := Some 1, exit_tag := Some ''macd_ema_exit''\<rparr> else df1 ! i)"
    using exit_base(3) [OF assms(4), of i df1] assms(5,6) len1 by simp
  have "exit_technical (parameters self1) (rows ! i)" if "exit_long (df2 ! i) = Some 1"
    using that row2 fresh1 same by (simp split: if_splits)
  with dead show ?thesis
    by (auto simp: exit_technical_def)
qed

theorem swing_high_exit_dead_witness:
  "list_all (\<lambda>c. close c \<le> high c) dip_frame \<and>
   swing_high (dip_rows ! 3) = Fin 1000 \<and> close (dip_rows ! 3) = 995 \<and>
   \<not> fgt (Fin (close (dip_rows ! 3))) (swing_high (dip_rows ! 3)) \<and>
   exit_long (dip_exited ! 3) = Some 1 \<and>
   flt (ttf (dip_rows ! 3)) (Fin (of_int (lower_trigger_level (parameters idle_strategy))))"
proof -
  have ok: "\<forall>c\<in>set dip_frame. close c \<le> high c"
    by (simp add: dip_frame_def flat_candle_def)
  have "3 < length dip_frame"
    by (simp add: dip_frame_def)
  from swing_high_exit_dead [OF ok, of short_params no_extern dip_rows idle_strategy
      "''BTC/USD''" dip_entered idle_strategy "[]" dip_exited idle_strategy 3, OF _ _ _ _ this]
    ok dip_signals dip_rows_eval idle_not_manual
  show ?thesis
    by (simp add: list_all_iff idle_strategy_simps)
qed

end
